theory Spec2Isabelle
  imports Complex_Main "HOL-Library.Sublist"
begin

section \<open>Stock of the Day: the recommendation pipeline of App.py\<close>

text \<open>
  The pipeline of \<^verbatim>\<open>App.py\<close> chains a language model, a market-data provider and a
  news API. Every external call is an argument of the model: the outcome the provider
  gives (a value, or the exception it raises) is handed to the function that makes the
  call. Exceptions are values of the type \<open>exn\<close>; a function that can raise returns
  \<open>exn + 'a\<close> with \<open>Inl\<close> for the exception. Calls of the logger change no result and
  are left out.
\<close>

subsection \<open>Python values\<close>

text \<open>
  A Python \<^verbatim>\<open>str\<close> is a sequence of Unicode code points, and \<^verbatim>\<open>len\<close> counts them:
  a \<open>str\<close> is a list of code points. \<open>lit\<close> writes an ASCII literal of the source.
\<close>

type_synonym str = "nat list"

definition lit :: "string \<Rightarrow> str" where
  "lit cs = map of_char cs"

text \<open>
  The exceptions the code can meet, all of them subclasses of \<^verbatim>\<open>Exception\<close>.
  \<open>RequestException\<close> holds the subclasses of \<^verbatim>\<open>requests.RequestException\<close>
  (\<^verbatim>\<open>JSONDecodeError\<close> is one of them since requests 2.27); \<open>ProviderError\<close> is
  whatever the yfinance or openai library raises; \<open>HTTPException\<close> is what Flask's
  \<^verbatim>\<open>abort\<close> raises (werkzeug's \<^verbatim>\<open>HTTPException\<close> derives from \<^verbatim>\<open>Exception\<close>).
\<close>

datatype request_error = Timeout | ConnectionError | HTTPError nat | JSONDecodeError

datatype exn =
    RequestException request_error
  | AttributeError
  | TypeError
  | KeyError
  | ZeroDivisionError
  | ProviderError str
  | HTTPException nat str

text \<open>
  The value \<^verbatim>\<open>response.json()\<close> returns. A \<open>JObj\<close> is the parsed \<^verbatim>\<open>dict\<close>, read
  with \<open>map_of\<close>.
\<close>

datatype json =
    JNull
  | JBool bool
  | JNum rat
  | JStr str
  | JArr "json list"
  | JObj "(str \<times> json) list"

text \<open>
  Prices are Python floats (\<^verbatim>\<open>Optional[float]\<close> in the source). Their arithmetic is
  idealised as exact arithmetic on rationals: the rounding error of binary floating point
  is outside the model. \<^verbatim>\<open>round(x, 2)\<close> rounds to the nearest hundredth, a tie to the
  even neighbour.
\<close>

definition round_half_even :: "rat \<Rightarrow> int" where
  "round_half_even y =
     (let f = \<lfloor>y\<rfloor>; d = y - of_int f
      in if d < 1 / 2 then f else if 1 / 2 < d then f + 1 else if even f then f else f + 1)"

definition py_round2 :: "rat \<Rightarrow> rat" where
  "py_round2 x = of_int (round_half_even (x * 100)) / 100"

text \<open>Truth value of an \<^verbatim>\<open>Optional[float]\<close>: \<^verbatim>\<open>None\<close> and zero are false.\<close>

definition truthy :: "rat option \<Rightarrow> bool" where
  "truthy v = (case v of None \<Rightarrow> False | Some x \<Rightarrow> x \<noteq> 0)"

subsection \<open>Market data client: \<^verbatim>\<open>get_stock_price_data\<close>\<close>

text \<open>
  \<open>info\<close> is the dictionary \<^verbatim>\<open>yf.Ticker(ticker).info\<close> read at its two keys;
  \<^verbatim>\<open>info.get(key)\<close> is \<open>None\<close> for a key that is missing.
\<close>

record info =
  regularMarketPrice :: "rat option"
  regularMarketPreviousClose :: "rat option"

record price_data =
  price :: "rat option"
  change_percentage :: "rat option"

text \<open>
  \<^verbatim>\<open>round((current_price - previous_close) / previous_close * 100, 2)\<close>, with the
  exceptions Python raises on \<^verbatim>\<open>None\<close> and on a zero divisor.
\<close>

fun percent_change :: "rat option \<Rightarrow> rat option \<Rightarrow> exn + rat" where
  "percent_change (Some c) (Some p) =
     (if p = 0 then Inl ZeroDivisionError else Inr (py_round2 ((c - p) / p * 100)))"
| "percent_change _ _ = Inl TypeError"

text \<open>The body of the \<^verbatim>\<open>try\<close> block, then the function with its handler.\<close>

definition get_stock_price_data_try :: "(str \<Rightarrow> exn + info) \<Rightarrow> str \<Rightarrow> exn + price_data" where
  "get_stock_price_data_try yf ticker =
     (case yf ticker of
        Inl e \<Rightarrow> Inl e
      | Inr info \<Rightarrow>
          (let current_price = regularMarketPrice info;
               previous_close = regularMarketPreviousClose info
           in if truthy current_price \<and> truthy previous_close \<and> previous_close \<noteq> Some 0
              then (case percent_change current_price previous_close of
                      Inl e \<Rightarrow> Inl e
                    | Inr change \<Rightarrow>
                        Inr \<lparr>price = current_price, change_percentage = Some change\<rparr>)
              else Inr \<lparr>price = current_price, change_percentage = None\<rparr>))"

definition get_stock_price_data :: "(str \<Rightarrow> exn + info) \<Rightarrow> str \<Rightarrow> exn + price_data" where
  "get_stock_price_data yf ticker =
     (case get_stock_price_data_try yf ticker of
        Inl e \<Rightarrow> Inr \<lparr>price = None, change_percentage = None\<rparr>
      | Inr r \<Rightarrow> Inr r)"

subsection \<open>News client: \<^verbatim>\<open>get_news_headlines\<close>\<close>

text \<open>
  What \<^verbatim>\<open>requests.get\<close> does for the query of a ticker: it raises a
  \<^verbatim>\<open>RequestException\<close>, or it returns a response with a status code and a body that
  \<^verbatim>\<open>response.json()\<close> can decode or not.
\<close>

datatype body = NotJSON | JSON json

datatype http_outcome = Raises request_error | Response nat body

text \<open>\<^verbatim>\<open>Response.raise_for_status\<close> of requests raises for the codes 400 to 599.\<close>

definition raise_for_status :: "nat \<Rightarrow> exn + unit" where
  "raise_for_status code =
     (if 400 \<le> code \<and> code < 600 then Inl (RequestException (HTTPError code)) else Inr ())"

text \<open>\<^verbatim>\<open>data.get("articles", [])\<close>: only a \<^verbatim>\<open>dict\<close> has the method.\<close>

fun get_articles :: "json \<Rightarrow> exn + json" where
  "get_articles (JObj kvs) =
     Inr (case map_of kvs (lit ''articles'') of None \<Rightarrow> JArr [] | Some v \<Rightarrow> v)"
| "get_articles _ = Inl AttributeError"

text \<open>
  The slice \<^verbatim>\<open>xs[:m]\<close> of a sequence: a negative bound counts from the end.
\<close>

definition slice_to :: "'a list \<Rightarrow> int \<Rightarrow> 'a list" where
  "slice_to xs m = (if 0 \<le> m then take (nat m) xs else take (nat (int (length xs) + m)) xs)"

text \<open>
  \<^verbatim>\<open>v[:max_articles]\<close> and the items the comprehension then iterates over. A list
  gives its items and a string its characters; the other values cannot be sliced
  (a \<^verbatim>\<open>dict\<close> raises \<^verbatim>\<open>TypeError\<close> up to Python 3.11 and \<^verbatim>\<open>KeyError\<close> from 3.12 on,
  where a slice can be hashed; no handler of the source tells the two apart).
\<close>

fun sliced_items :: "json \<Rightarrow> int \<Rightarrow> exn + json list" where
  "sliced_items (JArr xs) m = Inr (slice_to xs m)"
| "sliced_items (JStr cs) m = Inr (map (\<lambda>c. JStr [c]) (slice_to cs m))"
| "sliced_items _ m = Inl TypeError"

text \<open>\<^verbatim>\<open>article["title"]\<close>.\<close>

fun get_title :: "json \<Rightarrow> exn + json" where
  "get_title (JObj kvs) =
     (case map_of kvs (lit ''title'') of None \<Rightarrow> Inl KeyError | Some v \<Rightarrow> Inr v)"
| "get_title _ = Inl TypeError"

text \<open>\<^verbatim>\<open>[article["title"] for article in articles]\<close>: the first exception ends it.\<close>

fun titles :: "json list \<Rightarrow> exn + json list" where
  "titles [] = Inr []"
| "titles (article # articles) =
     (case get_title article of
        Inl e \<Rightarrow> Inl e
      | Inr t \<Rightarrow> (case titles articles of Inl e \<Rightarrow> Inl e | Inr ts \<Rightarrow> Inr (t # ts)))"

definition get_news_headlines_try ::
  "(str \<Rightarrow> http_outcome) \<Rightarrow> str \<Rightarrow> int \<Rightarrow> exn + json list" where
  "get_news_headlines_try news_api ticker max_articles =
     (case news_api ticker of
        Raises e \<Rightarrow> Inl (RequestException e)
      | Response code b \<Rightarrow>
          (case raise_for_status code of
             Inl e \<Rightarrow> Inl e
           | Inr _ \<Rightarrow>
               (case b of
                  NotJSON \<Rightarrow> Inl (RequestException JSONDecodeError)
                | JSON data \<Rightarrow>
                    (case get_articles data of
                       Inl e \<Rightarrow> Inl e
                     | Inr v \<Rightarrow>
                         (case sliced_items v max_articles of
                            Inl e \<Rightarrow> Inl e
                          | Inr articles \<Rightarrow> titles articles)))))"

text \<open>The handler is \<^verbatim>\<open>except requests.RequestException\<close>: any other exception goes on.\<close>

definition get_news_headlines ::
  "(str \<Rightarrow> http_outcome) \<Rightarrow> str \<Rightarrow> int \<Rightarrow> exn + json list" where
  "get_news_headlines news_api ticker max_articles =
     (case get_news_headlines_try news_api ticker max_articles of
        Inl (RequestException e) \<Rightarrow> Inr []
      | Inl e \<Rightarrow> Inl e
      | Inr headlines \<Rightarrow> Inr headlines)"

subsection \<open>Symbol extractor: \<^verbatim>\<open>extract_stock_symbol\<close>\<close>

text \<open>
  \<^verbatim>\<open>re.findall(r'\b[A-Z]{1,5}\b', text)\<close> on a \<^verbatim>\<open>str\<close>. \<^verbatim>\<open>[A-Z]\<close> is the ASCII range;
  \<^verbatim>\<open>\w\<close> is a letter, a digit or the underscore, and for a code point from 128 up what
  Python's Unicode tables say, which are the argument \<open>uw\<close>.
\<close>

definition is_upper :: "nat \<Rightarrow> bool" where
  "is_upper c = (65 \<le> c \<and> c \<le> 90)"

definition is_word :: "(nat \<Rightarrow> bool) \<Rightarrow> nat \<Rightarrow> bool" where
  "is_word uw c =
     (if c < 128
      then (48 \<le> c \<and> c \<le> 57) \<or> (65 \<le> c \<and> c \<le> 90) \<or> c = 95 \<or> (97 \<le> c \<and> c \<le> 122)
      else uw c)"

text \<open>
  \<^verbatim>\<open>\b\<close> holds between two positions when exactly one of the characters on its sides
  is a word character; the outside of the text counts as no word character.
\<close>

definition opt_word :: "(nat \<Rightarrow> bool) \<Rightarrow> nat option \<Rightarrow> bool" where
  "opt_word uw c = (case c of None \<Rightarrow> False | Some x \<Rightarrow> is_word uw x)"

definition word_boundary :: "(nat \<Rightarrow> bool) \<Rightarrow> nat option \<Rightarrow> nat option \<Rightarrow> bool" where
  "word_boundary uw before after = (opt_word uw before \<noteq> opt_word uw after)"

definition head_opt :: "'a list \<Rightarrow> 'a option" where
  "head_opt xs = (case xs of [] \<Rightarrow> None | x # _ \<Rightarrow> Some x)"

text \<open>The greedy \<^verbatim>\<open>[A-Z]{1,5}\<close> first takes as many letters as it can, five at most.\<close>

definition greedy_upper :: "str \<Rightarrow> nat" where
  "greedy_upper s = length (takeWhile is_upper (take 5 s))"

text \<open>
  Then the closing \<^verbatim>\<open>\b\<close> is tried after \<open>k\<close> letters, and on failure the matcher gives
  one letter back, down to one letter.
\<close>

fun backtrack :: "(nat \<Rightarrow> bool) \<Rightarrow> str \<Rightarrow> nat \<Rightarrow> nat option" where
  "backtrack uw s 0 = None"
| "backtrack uw s (Suc k) =
     (if word_boundary uw (Some (s ! k)) (head_opt (drop (Suc k) s)) then Some (Suc k)
      else backtrack uw s k)"

text \<open>
  A match attempt at one position: \<open>before\<close> is the character in front of it, \<open>s\<close> the
  text from it on. The result is the length of the match.
\<close>

definition match_at :: "(nat \<Rightarrow> bool) \<Rightarrow> nat option \<Rightarrow> str \<Rightarrow> nat option" where
  "match_at uw before s =
     (if word_boundary uw before (head_opt s) then backtrack uw s (greedy_upper s) else None)"

text \<open>
  The scan of \<^verbatim>\<open>findall\<close>: after a match it goes on behind the match, otherwise one
  character further.
\<close>

function findall_from :: "(nat \<Rightarrow> bool) \<Rightarrow> nat option \<Rightarrow> str \<Rightarrow> str list" where
  "findall_from uw before [] = []"
| "findall_from uw before (c # cs) =
     (case match_at uw before (c # cs) of
        Some k \<Rightarrow>
          take k (c # cs) # findall_from uw (Some ((c # cs) ! (k - 1))) (drop k (c # cs))
      | None \<Rightarrow> findall_from uw (Some c) cs)"
  by pat_completeness auto
termination
proof (relation "measure (\<lambda>(uw, before, s). length s)")
  show "wf (measure (\<lambda>(uw, before, s). length s))"
    by simp
next
  fix uw :: "nat \<Rightarrow> bool" and before :: "nat option" and c :: nat and cs :: str and k :: nat
  assume m: "match_at uw before (c # cs) = Some k"
  have pos: "backtrack uw s n = Some j \<Longrightarrow> 0 < j" for s n j
    by (induction n) (auto split: if_splits)
  from m have "0 < k"
    by (auto simp: match_at_def dest: pos split: if_splits)
  then show "((uw, Some ((c # cs) ! (k - 1)), drop k (c # cs)), (uw, before, c # cs))
      \<in> measure (\<lambda>(uw, before, s). length s)"
    by simp
next
  fix uw :: "nat \<Rightarrow> bool" and before :: "nat option" and c :: nat and cs :: str
  show "((uw, Some c, cs), (uw, before, c # cs)) \<in> measure (\<lambda>(uw, before, s). length s)"
    by simp
qed

definition re_findall :: "(nat \<Rightarrow> bool) \<Rightarrow> str \<Rightarrow> str list" where
  "re_findall uw text = findall_from uw None text"

definition common_words :: "str set" where
  "common_words =
     {lit ''THE'', lit ''AND'', lit ''FOR'', lit ''ARE'', lit ''YOU'', lit ''ALL'',
      lit ''NEW'', lit ''TOP'', lit ''BEST'', lit ''HIGH'', lit ''LOW''}"

definition extract_stock_symbol :: "(nat \<Rightarrow> bool) \<Rightarrow> str \<Rightarrow> str option" where
  "extract_stock_symbol uw ai_discovery =
     (let symbols = re_findall uw ai_discovery;
          symbols = filter (\<lambda>s. s \<notin> common_words \<and> 2 \<le> length s) symbols
      in case symbols of [] \<Rightarrow> None | s # _ \<Rightarrow> Some s)"

text \<open>
  The extractor in the words of its description: the text falls into maximal runs of word
  characters; a run is a candidate when it is made of one to five capital letters.
\<close>

function word_runs :: "(nat \<Rightarrow> bool) \<Rightarrow> str \<Rightarrow> str list" where
  "word_runs uw [] = []"
| "word_runs uw (c # cs) =
     (if is_word uw c
      then (c # takeWhile (is_word uw) cs) # word_runs uw (dropWhile (is_word uw) cs)
      else word_runs uw cs)"
  by pat_completeness auto
termination
  by (relation "measure (\<lambda>(uw, s). length s)") (auto simp: length_dropWhile_le less_Suc_eq_le)

definition upper_runs :: "(nat \<Rightarrow> bool) \<Rightarrow> str \<Rightarrow> str list" where
  "upper_runs uw text = filter (\<lambda>w. length w \<le> 5 \<and> list_all is_upper w) (word_runs uw text)"

subsection \<open>Enrichment: \<^verbatim>\<open>analyze_single_stock\<close>\<close>

text \<open>
  The snapshot dictionary with its four keys. The handler of the function is
  \<^verbatim>\<open>except Exception\<close>, which turns every exception of the two clients into \<^verbatim>\<open>None\<close>.
\<close>

record stock_data = price_data +
  symbol :: str
  news :: "json list"

definition analyze_single_stock ::
  "(str \<Rightarrow> exn + info) \<Rightarrow> (str \<Rightarrow> http_outcome) \<Rightarrow> str \<Rightarrow> stock_data option" where
  "analyze_single_stock yf news_api stock_symbol =
     (case get_stock_price_data yf stock_symbol of
        Inl e \<Rightarrow> None
      | Inr pd \<Rightarrow>
          (case get_news_headlines news_api stock_symbol 3 of
             Inl e \<Rightarrow> None
           | Inr news_headlines \<Rightarrow>
               Some \<lparr>price = price pd, change_percentage = change_percentage pd,
                     symbol = stock_symbol, news = news_headlines\<rparr>))"

subsection \<open>Prompt construction: \<^verbatim>\<open>build_analysis_prompt\<close>\<close>

text \<open>
  \<^verbatim>\<open>sep.join(items)\<close> raises \<^verbatim>\<open>TypeError\<close> for an item that is no \<^verbatim>\<open>str\<close>.
\<close>

fun strs :: "json list \<Rightarrow> exn + str list" where
  "strs [] = Inr []"
| "strs (JStr x # items) = (case strs items of Inl e \<Rightarrow> Inl e | Inr xs \<Rightarrow> Inr (x # xs))"
| "strs (_ # items) = Inl TypeError"

fun join_strs :: "str \<Rightarrow> str list \<Rightarrow> str" where
  "join_strs sep [] = []"
| "join_strs sep [x] = x"
| "join_strs sep (x # y # ys) = x @ sep @ join_strs sep (y # ys)"

definition join :: "str \<Rightarrow> json list \<Rightarrow> exn + str" where
  "join sep items = (case strs items of Inl e \<Rightarrow> Inl e | Inr xs \<Rightarrow> Inr (join_strs sep xs))"

text \<open>
  The three local strings of the function. \<open>float_str\<close> is Python's formatting of a
  float inside an f-string, an argument of the model; \<open>format_value\<close> is what the
  f-string prints for an \<^verbatim>\<open>Optional[float]\<close>.
\<close>

definition format_value :: "(rat \<Rightarrow> str) \<Rightarrow> rat option \<Rightarrow> str" where
  "format_value float_str v = (case v of None \<Rightarrow> lit ''None'' | Some x \<Rightarrow> float_str x)"

definition price_str :: "(rat \<Rightarrow> str) \<Rightarrow> stock_data \<Rightarrow> str" where
  "price_str float_str stock_data =
     (if truthy (price stock_data) then lit ''$'' @ format_value float_str (price stock_data)
      else lit ''N/A'')"

definition change_str :: "(rat \<Rightarrow> str) \<Rightarrow> stock_data \<Rightarrow> str" where
  "change_str float_str stock_data =
     (if change_percentage stock_data \<noteq> None
      then format_value float_str (change_percentage stock_data) @ lit ''%''
      else lit ''N/A'')"

definition news_str :: "stock_data \<Rightarrow> exn + str" where
  "news_str stock_data =
     (if news stock_data \<noteq> [] then join (lit ''; '') (news stock_data)
      else Inr (lit ''No recent news''))"

definition build_analysis_prompt :: "(rat \<Rightarrow> str) \<Rightarrow> stock_data \<Rightarrow> exn + str" where
  "build_analysis_prompt float_str stock_data =
     (case news_str stock_data of
        Inl e \<Rightarrow> Inl e
      | Inr ns \<Rightarrow>
          Inr (lit ''You are a top stock analyst. Based on the following discovered small-cap stock with its ''
             @ lit ''current price, daily change, and recent news headlines, provide a detailed analysis ''
             @ lit ''of this stock's potential for significant growth:\<newline>\<newline>''
             @ lit ''Stock: '' @ symbol stock_data @ lit ''\<newline>''
             @ lit ''Current Price: '' @ price_str float_str stock_data @ lit ''\<newline>''
             @ lit ''Daily Change: '' @ change_str float_str stock_data @ lit ''\<newline>''
             @ lit ''Recent News: '' @ ns @ lit ''\<newline>\<newline>''
             @ lit ''Provide a comprehensive analysis including:\<newline>''
             @ lit ''1. Why this stock shows promise\<newline>''
             @ lit ''2. Key factors driving its potential\<newline>''
             @ lit ''3. Risk considerations\<newline>''
             @ lit ''4. Your overall recommendation''))"

subsection \<open>The two language-model calls\<close>

text \<open>
  A chat completion takes the messages (role and content) and \<^verbatim>\<open>max_tokens\<close>; it
  raises, or it gives \<^verbatim>\<open>response.choices[0].message.content\<close>, which can be
  \<^verbatim>\<open>None\<close>. Both functions log an exception and raise it again.
\<close>

type_synonym chat = "(str \<times> str) list \<Rightarrow> nat \<Rightarrow> exn + str option"

definition discovery_messages :: "(str \<times> str) list" where
  "discovery_messages =
     [(lit ''system'',
       lit ''You are a top stock analyst specializing in small-cap stocks. ''
       @ lit ''Your job is to identify the single most promising small-cap stock ''
       @ lit ''(market cap under $2B) that shows the highest potential for significant growth.''),
      (lit ''user'',
       lit ''Based on current market conditions, identify the ONE most promising small-cap stock ''
       @ lit ''that you believe has the highest potential for growth in the near term. ''
       @ lit ''Provide: 1) Stock symbol, 2) Company name, 3) Detailed reasoning why this is ''
       @ lit ''your top pick. Focus on stocks with strong fundamentals, recent positive ''
       @ lit ''developments, or emerging trends. Be specific and thorough in your analysis.'')]"

definition get_ai_stock_discovery :: "chat \<Rightarrow> exn + str option" where
  "get_ai_stock_discovery chat_api =
     (case chat_api discovery_messages 1000 of Inl e \<Rightarrow> Inl e | Inr content \<Rightarrow> Inr content)"

definition recommendation_messages :: "str \<Rightarrow> (str \<times> str) list" where
  "recommendation_messages prompt =
     [(lit ''system'', lit ''You are a helpful stock analyst.''), (lit ''user'', prompt)]"

definition get_ai_recommendation :: "chat \<Rightarrow> str \<Rightarrow> exn + str option" where
  "get_ai_recommendation chat_api prompt =
     (case chat_api (recommendation_messages prompt) 500 of
        Inl e \<Rightarrow> Inl e
      | Inr content \<Rightarrow> Inr content)"

subsection \<open>Orchestrator: the route \<^verbatim>\<open>stock\<close>\<close>

text \<open>
  The outside of one request: the language model, the market-data provider, the news
  API, and the two tables of the Python runtime the code relies on.
\<close>

record env =
  chat_completion :: chat
  ticker_info :: "str \<Rightarrow> exn + info"
  requests_get :: "str \<Rightarrow> http_outcome"
  format_float :: "rat \<Rightarrow> str"
  unicode_word :: "nat \<Rightarrow> bool"

text \<open>
  \<^verbatim>\<open>render_template(name, ai_pick=text)\<close> is kept as the page it asks for.
  \<^verbatim>\<open>abort(code, description=text)\<close> raises an \<^verbatim>\<open>HTTPException\<close>.
\<close>

datatype response = Rendered str str

definition abort :: "nat \<Rightarrow> str \<Rightarrow> exn + 'a" where
  "abort code description = Inl (HTTPException code description)"

text \<open>
  The body of the \<^verbatim>\<open>try\<close> block. The calls of \<^verbatim>\<open>abort\<close> are inside it, so the
  exception they raise reaches the handler below like any other.
\<close>

definition stock_try :: "env \<Rightarrow> exn + response" where
  "stock_try env =
     (case get_ai_stock_discovery (chat_completion env) of
        Inl e \<Rightarrow> Inl e
      | Inr None \<Rightarrow> abort 500 (lit ''Failed to discover stocks'')
      | Inr (Some ai_discovery) \<Rightarrow>
          (case extract_stock_symbol (unicode_word env) ai_discovery of
             None \<Rightarrow> abort 500 (lit ''Failed to discover any stocks'')
           | Some stock_symbol \<Rightarrow>
               if stock_symbol = [] then abort 500 (lit ''Failed to discover any stocks'')
               else
                 (case analyze_single_stock (ticker_info env) (requests_get env) stock_symbol of
                    None \<Rightarrow> abort 500 (lit ''Failed to analyze the discovered stock'')
                  | Some stock_data \<Rightarrow>
                      (case build_analysis_prompt (format_float env) stock_data of
                         Inl e \<Rightarrow> Inl e
                       | Inr analysis_prompt \<Rightarrow>
                           (case get_ai_recommendation (chat_completion env) analysis_prompt of
                              Inl e \<Rightarrow> Inl e
                            | Inr None \<Rightarrow> abort 500 (lit ''Failed to get AI recommendation'')
                            | Inr (Some ai_recommendation) \<Rightarrow>
                                Inr (Rendered (lit ''stock.html'')
                                  (lit ''AI Stock Discovery:\<newline>'' @ ai_discovery
                                   @ lit ''\<newline>\<newline>''
                                   @ lit ''Detailed Analysis:\<newline>'' @ ai_recommendation)))))))"

definition stock :: "env \<Rightarrow> exn + response" where
  "stock env =
     (case stock_try env of
        Inl e \<Rightarrow> abort 500 (lit ''Failed to generate stock recommendation'')
      | Inr page \<Rightarrow> Inr page)"

subsection \<open>Example data\<close>

text \<open>
  Python's formatting of a float whose shortest decimal form is a short exact decimal,
  as \<^verbatim>\<open>12.5\<close> or \<^verbatim>\<open>25.0\<close>: sign, integer digits, the point and the digits behind it.
  It stands in for \<open>format_float\<close> in the examples.
\<close>

fun nat_digits :: "nat \<Rightarrow> str" where
  "nat_digits n = (if n < 10 then [48 + n] else nat_digits (n div 10) @ [48 + n mod 10])"

fun fraction_digits :: "nat \<Rightarrow> rat \<Rightarrow> str" where
  "fraction_digits 0 x = []"
| "fraction_digits (Suc k) x =
     (if x = 0 then []
      else (nat \<lfloor>x * 10\<rfloor> + 48) # fraction_digits k (x * 10 - of_int \<lfloor>x * 10\<rfloor>))"

definition float_repr :: "rat \<Rightarrow> str" where
  "float_repr x =
     (let whole = \<lfloor>\<bar>x\<bar>\<rfloor>; rest = \<bar>x\<bar> - of_int whole
      in (if x < 0 then lit ''-'' else []) @ nat_digits (nat whole) @ lit ''.''
         @ (if rest = 0 then lit ''0'' else fraction_digits 17 rest))"

text \<open>
  A request in which every provider answers: the model names the ticker GRPH, the quote
  is 12.5 after a close of 10, and the news API has one article.
\<close>

definition graphex_chat :: chat where
  "graphex_chat msgs max_tokens =
     (if msgs = discovery_messages
      then Inr (Some (lit ''Our top pick is GRPH (Graphex Inc), a strong buy''))
      else Inr (Some (lit ''Graphex is a promising small-cap stock.'')))"

definition graphex_info :: "str \<Rightarrow> exn + info" where
  "graphex_info ticker =
     Inr \<lparr>regularMarketPrice = Some (25 / 2), regularMarketPreviousClose = Some 10\<rparr>"

definition graphex_news :: "str \<Rightarrow> http_outcome" where
  "graphex_news ticker =
     Response 200 (JSON (JObj [(lit ''status'', JStr (lit ''ok'')),
       (lit ''articles'', JArr [JObj [(lit ''title'', JStr (lit ''Graphex wins contract''))]])]))"

definition graphex_env :: env where
  "graphex_env =
     \<lparr>chat_completion = graphex_chat, ticker_info = graphex_info, requests_get = graphex_news,
      format_float = float_repr, unicode_word = (\<lambda>c. False)\<rparr>"

definition graphex_snapshot :: stock_data where
  "graphex_snapshot =
     \<lparr>price = Some (25 / 2), change_percentage = Some 25, symbol = lit ''GRPH'',
      news = [JStr (lit ''Graphex wins contract'')]\<rparr>"

text \<open>The same request with a language model that fails: at once, or only when asked for the analysis.\<close>

definition failing_chat :: chat where
  "failing_chat msgs max_tokens = Inl (ProviderError (lit ''APIConnectionError''))"

definition analysis_failing_chat :: chat where
  "analysis_failing_chat msgs max_tokens =
     (if msgs = discovery_messages then graphex_chat msgs max_tokens
      else Inl (ProviderError (lit ''APIConnectionError'')))"

definition discovery_error_env :: env where
  "discovery_error_env = graphex_env\<lparr>chat_completion := failing_chat\<rparr>"

definition analysis_error_env :: env where
  "analysis_error_env = graphex_env\<lparr>chat_completion := analysis_failing_chat\<rparr>"

text \<open>A news response with status 200 whose article has no title.\<close>

definition untitled_news :: "str \<Rightarrow> http_outcome" where
  "untitled_news ticker =
     Response 200 (JSON (JObj [(lit ''articles'',
       JArr [JObj [(lit ''description'', JStr (lit ''Graphex wins contract''))]])]))"

text \<open>A news response with four articles, and one without the key \<^verbatim>\<open>articles\<close>.\<close>

definition four_articles :: "json list" where
  "four_articles =
     [JObj [(lit ''title'', JStr (lit ''first''))], JObj [(lit ''title'', JStr (lit ''second''))],
      JObj [(lit ''title'', JStr (lit ''third''))], JObj [(lit ''title'', JStr (lit ''fourth''))]]"

definition four_news :: "str \<Rightarrow> http_outcome" where
  "four_news ticker = Response 200 (JSON (JObj [(lit ''articles'', JArr four_articles)]))"

definition no_articles_news :: "str \<Rightarrow> http_outcome" where
  "no_articles_news ticker = Response 200 (JSON (JObj [(lit ''status'', JStr (lit ''ok''))]))"


definition failing_info :: "str \<Rightarrow> exn + info" where
  "failing_info ticker = Inl (ProviderError (lit ''HTTPError''))"

definition zero_price_snapshot :: stock_data where
  "zero_price_snapshot =
     \<lparr>price = Some 0, change_percentage = None, symbol = lit ''GRPH'', news = []\<rparr>"


definition timeout_news :: "str \<Rightarrow> http_outcome" where
  "timeout_news ticker = Raises Timeout"

section \<open>Properties\<close>

subsection \<open>Market data client\<close>

text \<open>
  C7: for every ticker and every error of the provider, \<^verbatim>\<open>get_stock_price_data\<close> does
  not pass the error on: it returns the dictionary with price and change percentage both
  \<^verbatim>\<open>None\<close>, and it never raises, whatever the provider does.
\<close>

theorem get_stock_price_data_never_raises:
  "(\<exists>q. get_stock_price_data yf ticker = Inr q) \<and>
   (\<forall>e. yf ticker = Inl e \<longrightarrow>
      get_stock_price_data yf ticker = Inr \<lparr>price = None, change_percentage = None\<rparr>)"
  by (auto simp: get_stock_price_data_def get_stock_price_data_try_def Let_def split: sum.splits)

theorem get_stock_price_data_never_raises_witness:
  "failing_info (lit ''GRPH'') = Inl (ProviderError (lit ''HTTPError'')) \<and>
   get_stock_price_data failing_info (lit ''GRPH'')
     = Inr \<lparr>price = None, change_percentage = None\<rparr>"
proof -
  have h: "failing_info (lit ''GRPH'') = Inl (ProviderError (lit ''HTTPError''))"
    by (simp add: failing_info_def)
  from get_stock_price_data_never_raises [of failing_info "lit ''GRPH''"] h
  show ?thesis by blast
qed




subsection \<open>News client\<close>

lemma raise_for_status_ok: "\<not> (400 \<le> code \<and> code < 600) \<Longrightarrow> raise_for_status code = Inr ()"
  by (simp add: raise_for_status_def)

lemma titles_all:
  "\<forall>a\<in>set articles. \<exists>t. get_title a = Inr t \<Longrightarrow>
     \<exists>hs. titles articles = Inr hs \<and> map Inr hs = map get_title articles"
proof (induction articles)
  case Nil
  then show ?case by simp
next
  case (Cons a articles)
  then obtain t hs where "get_title a = Inr t" "titles articles = Inr hs"
    "map Inr hs = map get_title articles"
    by auto
  then show ?case by simp
qed

text \<open>
  C2, as the code has it: for every ticker and every failure of the news fetch that
  requests raises as a \<^verbatim>\<open>RequestException\<close> (a timeout, a network error, a status from
  400 to 599, a body that is no JSON), \<^verbatim>\<open>get_news_headlines\<close> returns the empty list and
  does not raise.
\<close>

theorem get_news_headlines_request_failure:
  assumes "(\<exists>e. news_api ticker = Raises e) \<or>
    (\<exists>code b. news_api ticker = Response code b \<and> (400 \<le> code \<and> code < 600 \<or> b = NotJSON))"
  shows "get_news_headlines news_api ticker max_articles = Inr []"
  using assms
  by (auto simp: get_news_headlines_def get_news_headlines_try_def raise_for_status_def)

theorem get_news_headlines_request_failure_witness:
  "timeout_news (lit ''GRPH'') = Raises Timeout \<and>
   get_news_headlines timeout_news (lit ''GRPH'') 3 = Inr []"
proof -
  have h: "timeout_news (lit ''GRPH'') = Raises Timeout"
    by (simp add: timeout_news_def)
  then have "get_news_headlines timeout_news (lit ''GRPH'') 3 = Inr []"
    by (intro get_news_headlines_request_failure) blast
  with h show ?thesis by simp
qed

theorem get_news_headlines_untitled_counterexample:
  "get_news_headlines untitled_news (lit ''GRPH'') 3 = Inl KeyError"
  by code_simp

text \<open>
  C8: for every ticker and every successful news response (a status from 200 to 299 and a
  JSON object whose \<^verbatim>\<open>articles\<close> is an array of objects with a title),
  \<^verbatim>\<open>get_news_headlines\<close> returns at most \<^verbatim>\<open>max_articles\<close> headlines, the titles of the
  first \<^verbatim>\<open>max_articles\<close> articles in the order of the provider; \<^verbatim>\<open>max_articles\<close> is a
  number of articles, so it is not negative.
\<close>

theorem get_news_headlines_first_titles:
  assumes "news_api ticker = Response code (JSON (JObj kvs))"
    and "200 \<le> code \<and> code < 300"
    and "map_of kvs (lit ''articles'') = Some (JArr articles)"
    and "\<forall>a\<in>set articles. \<exists>t. get_title a = Inr t"
    and "0 \<le> max_articles"
  shows "\<exists>hs. get_news_headlines news_api ticker max_articles = Inr hs \<and>
    length hs \<le> nat max_articles \<and>
    map Inr hs = map get_title (take (nat max_articles) articles)"
proof -
  have "\<forall>a\<in>set (take (nat max_articles) articles). \<exists>t. get_title a = Inr t"
    using assms(4) by (auto dest: in_set_takeD)
  then obtain hs where hs: "titles (take (nat max_articles) articles) = Inr hs"
    "map Inr hs = map get_title (take (nat max_articles) articles)"
    using titles_all by blast
  from hs(2) have "length hs = length (take (nat max_articles) articles)"
    by (metis length_map)
  then have len: "length hs \<le> nat max_articles"
    by simp
  have "get_news_headlines news_api ticker max_articles = Inr hs"
    using assms(1,2,3,5) hs(1)
    by (simp add: get_news_headlines_def get_news_headlines_try_def raise_for_status_ok
        slice_to_def)
  with hs(2) len show ?thesis by blast
qed

theorem get_news_headlines_first_titles_witness:
  "four_news (lit ''GRPH'') = Response 200 (JSON (JObj [(lit ''articles'', JArr four_articles)])) \<and>
   length four_articles = 4 \<and>
   get_news_headlines four_news (lit ''GRPH'') 3
     = Inr [JStr (lit ''first''), JStr (lit ''second''), JStr (lit ''third'')]"
proof -
  have h: "four_news (lit ''GRPH'')
      = Response 200 (JSON (JObj [(lit ''articles'', JArr four_articles)]))"
    by (simp add: four_news_def)
  have c: "(200::nat) \<le> 200 \<and> (200::nat) < 300"
    by simp
  have m: "map_of [(lit ''articles'', JArr four_articles)] (lit ''articles'')
      = Some (JArr four_articles)"
    by simp
  have t: "\<forall>a\<in>set four_articles. \<exists>t. get_title a = Inr t"
    by (simp add: four_articles_def)
  have z: "(0::int) \<le> 3"
    by simp
  from get_news_headlines_first_titles [of four_news "lit ''GRPH''" 200
      "[(lit ''articles'', JArr four_articles)]" four_articles 3, OF h c m t z]
  obtain hs where hs: "get_news_headlines four_news (lit ''GRPH'') 3 = Inr hs"
    "map Inr hs = map get_title (take (nat 3) four_articles)"
    by blast
  have "map get_title (take (nat 3) four_articles)
      = map Inr [JStr (lit ''first''), JStr (lit ''second''), JStr (lit ''third'')]"
    by (simp add: four_articles_def)
  with hs(2) have "map Inr hs
      = (map Inr [JStr (lit ''first''), JStr (lit ''second''), JStr (lit ''third'')]
          :: (exn + json) list)"
    by simp
  then have "hs = [JStr (lit ''first''), JStr (lit ''second''), JStr (lit ''third'')]"
    by (simp only: inj_map_eq_map [OF inj_Inr])
  with hs(1) h show ?thesis by (simp add: four_articles_def)
qed

text \<open>
  C10: when the news provider answers with a status from 200 to 299 and a JSON object
  that has no key \<^verbatim>\<open>articles\<close>, \<^verbatim>\<open>get_news_headlines\<close> returns the empty list without
  an error, as it does for the same object with an empty array of articles.
\<close>

theorem get_news_headlines_missing_articles:
  assumes "news_api ticker = Response code (JSON (JObj kvs))"
    and "200 \<le> code \<and> code < 300"
    and "map_of kvs (lit ''articles'') = None"
  shows "get_news_headlines news_api ticker max_articles = Inr [] \<and>
    get_news_headlines (\<lambda>t. Response code (JSON (JObj ((lit ''articles'', JArr []) # kvs))))
      ticker max_articles = Inr []"
  using assms
  by (simp add: get_news_headlines_def get_news_headlines_try_def raise_for_status_ok
      slice_to_def)

theorem get_news_headlines_missing_articles_witness:
  "no_articles_news (lit ''GRPH'') = Response 200 (JSON (JObj [(lit ''status'', JStr (lit ''ok''))])) \<and>
   get_news_headlines no_articles_news (lit ''GRPH'') 3 = Inr []"
proof -
  have h: "no_articles_news (lit ''GRPH'')
      = Response 200 (JSON (JObj [(lit ''status'', JStr (lit ''ok''))]))"
    by (simp add: no_articles_news_def)
  have c: "(200::nat) \<le> 200 \<and> (200::nat) < 300"
    by simp
  have m: "map_of [(lit ''status'', JStr (lit ''ok''))] (lit ''articles'') = None"
    by code_simp
  from get_news_headlines_missing_articles [of no_articles_news "lit ''GRPH''" 200
      "[(lit ''status'', JStr (lit ''ok''))]" 3, OF h c m] h
  show ?thesis by simp
qed

subsection \<open>Symbol extractor\<close>

text \<open>
  The scan of the regular expression finds exactly the maximal runs of word characters
  that are made of one to five capital letters, in the order of the text. The lemmas
  follow the matcher: what the backtracking returns on a run of capitals, what a match
  attempt returns at the start of a word, inside a word and outside, and then the scan.
\<close>

lemma is_upper_word: "is_upper c \<Longrightarrow> is_word uw c"
  by (auto simp: is_upper_def is_word_def)

lemma head_opt_simps [simp]: "head_opt [] = None" "head_opt (x # xs) = Some x"
  by (simp_all add: head_opt_def)

lemma opt_word_simps [simp]: "opt_word uw None = False" "opt_word uw (Some c) = is_word uw c"
  by (simp_all add: opt_word_def)

lemma backtrack_upper:
  assumes "n \<le> length s" and "\<forall>i<n. is_upper (s ! i)"
  shows "backtrack uw s n =
    (if 0 < n \<and> \<not> opt_word uw (head_opt (drop n s)) then Some n else None)"
  using assms
proof (induction n)
  case 0
  then show ?case by simp
next
  case (Suc k)
  have k: "k < length s" using Suc.prems by simp
  have up: "is_word uw (s ! k)" using Suc.prems by (simp add: is_upper_word)
  have hd: "head_opt (drop k s) = Some (s ! k)"
    using k by (simp add: Cons_nth_drop_Suc [symmetric])
  have ih: "backtrack uw s k = None"
    using Suc.IH Suc.prems up hd by simp
  show ?case
    using up ih by (simp add: word_boundary_def)
qed

lemma greedy_upper_le: "greedy_upper s \<le> length s"
proof -
  have "length (takeWhile is_upper (take 5 s)) \<le> length (take 5 s)"
    by (rule length_takeWhile_le)
  then show ?thesis by (simp add: greedy_upper_def)
qed

lemma greedy_upper_le5: "greedy_upper s \<le> 5"
proof -
  have "length (takeWhile is_upper (take 5 s)) \<le> length (take 5 s)"
    by (rule length_takeWhile_le)
  then show ?thesis by (simp add: greedy_upper_def)
qed

lemma greedy_upper_prefix: "take (greedy_upper s) s = takeWhile is_upper (take 5 s)"
proof -
  have a: "takeWhile is_upper (take 5 s) = take (greedy_upper s) (take 5 s)"
    unfolding greedy_upper_def by (rule takeWhile_eq_take)
  have b: "take (greedy_upper s) (take 5 s) = take (min (greedy_upper s) 5) s"
    by (simp only: take_take)
  have c: "min (greedy_upper s) 5 = greedy_upper s"
    using greedy_upper_le5 [of s] by (simp only: min_def if_True)
  show ?thesis
    by (simp only: a b c)
qed

lemma greedy_upper_all: "i < greedy_upper s \<Longrightarrow> is_upper (s ! i)"
proof -
  assume i: "i < greedy_upper s"
  have "is_upper (takeWhile is_upper (take 5 s) ! i)"
    using i unfolding greedy_upper_def by (metis nth_mem set_takeWhileD)
  moreover have "takeWhile is_upper (take 5 s) ! i = s ! i"
    using i greedy_upper_prefix [of s] by (metis nth_take)
  ultimately show ?thesis by simp
qed

lemma match_at_eq:
  "match_at uw before s =
    (if word_boundary uw before (head_opt s) \<and> 0 < greedy_upper s
        \<and> \<not> opt_word uw (head_opt (drop (greedy_upper s) s))
     then Some (greedy_upper s) else None)"
  using backtrack_upper [of "greedy_upper s" s uw] greedy_upper_le [of s] greedy_upper_all [of _ s]
  by (simp add: match_at_def)


lemma takeWhile_stop: "\<not> opt_word uw (head_opt r) \<Longrightarrow> takeWhile (is_word uw) r = []"
  by (cases r) simp_all

lemma dropWhile_stop: "\<not> opt_word uw (head_opt r) \<Longrightarrow> dropWhile (is_word uw) r = r"
  by (cases r) simp_all

lemma head_dropWhile_word: "\<not> opt_word uw (head_opt (dropWhile (is_word uw) s))"
  by (induction s) simp_all

lemma greedy_upper_run:
  assumes "list_all is_upper w" and "length w \<le> 5" and "\<not> opt_word uw (head_opt r)"
  shows "greedy_upper (w @ r) = length w"
proof -
  have "takeWhile is_upper (take (5 - length w) r) = []"
  proof (cases "take (5 - length w) r")
    case Nil
    show ?thesis unfolding Nil by simp
  next
    case (Cons x xs)
    then obtain r' where r: "r = x # r'"
      by (cases r) (auto split: if_splits simp: take_Cons')
    with assms(3) have "\<not> is_upper x"
      by (auto dest: is_upper_word)
    with Cons show ?thesis by simp
  qed
  moreover have "takeWhile is_upper (w @ take (5 - length w) r)
      = w @ takeWhile is_upper (take (5 - length w) r)"
    using assms(1) by (simp add: list_all_iff)
  ultimately show ?thesis
    using assms(2) by (simp add: greedy_upper_def)
qed

lemma match_at_word_start:
  assumes b: "\<not> opt_word uw before" and c: "is_word uw c"
  shows "match_at uw before (c # cs) =
    (if length (c # takeWhile (is_word uw) cs) \<le> 5
        \<and> list_all is_upper (c # takeWhile (is_word uw) cs)
     then Some (length (c # takeWhile (is_word uw) cs)) else None)"
proof -
  define s where "s = c # cs"
  define w where "w = c # takeWhile (is_word uw) cs"
  define r where "r = dropWhile (is_word uw) cs"
  have s: "s = w @ r"
    by (simp add: s_def w_def r_def)
  have w: "w = takeWhile (is_word uw) s"
    using c by (simp add: s_def w_def)
  have r: "\<not> opt_word uw (head_opt r)"
    unfolding r_def by (rule head_dropWhile_word)
  have bd: "word_boundary uw before (head_opt s)"
    using b c by (simp add: word_boundary_def s_def)
  show ?thesis
  proof (cases "length w \<le> 5 \<and> list_all is_upper w")
    case True
    then have n: "greedy_upper s = length w"
      using r s greedy_upper_run by simp
    have "0 < length w" by (simp add: w_def)
    moreover have "drop (length w) s = r" by (simp add: s)
    ultimately have "match_at uw before s = Some (length w)"
      using n r bd by (simp add: match_at_eq)
    with True show ?thesis by (simp add: s_def w_def)
  next
    case False
    have "match_at uw before s = None"
    proof (rule ccontr)
      assume "match_at uw before s \<noteq> None"
      then have pos: "0 < greedy_upper s"
        and stop: "\<not> opt_word uw (head_opt (drop (greedy_upper s) s))"
        by (auto simp: match_at_eq split: if_splits)
      define u where "u = take (greedy_upper s) s"
      have su: "s = u @ drop (greedy_upper s) s"
        by (simp add: u_def)
      have uu: "\<forall>x\<in>set u. is_upper x"
        unfolding u_def greedy_upper_prefix by (auto dest: set_takeWhileD)
      then have uw: "\<forall>x\<in>set u. is_word uw x"
        by (auto dest: is_upper_word)
      have "takeWhile (is_word uw) (u @ drop (greedy_upper s) s) = u"
        using uw stop by (simp add: takeWhile_stop)
      with su w have "w = u" by simp
      moreover have "length u \<le> 5"
        using greedy_upper_le5 [of s] by (simp add: u_def)
      ultimately show False
        using False uu by (simp add: list_all_iff)
    qed
    with False show ?thesis by (simp add: s_def w_def)
  qed
qed

lemma match_at_non_word: "\<not> is_word uw c \<Longrightarrow> match_at uw before (c # cs) = None"
proof -
  assume "\<not> is_word uw c"
  then have "\<not> is_upper c" by (auto dest: is_upper_word)
  then have "greedy_upper (c # cs) = 0" by (simp add: greedy_upper_def)
  then show ?thesis by (simp add: match_at_def)
qed

lemma match_at_in_word:
  "opt_word uw before \<Longrightarrow> is_word uw c \<Longrightarrow> match_at uw before (c # cs) = None"
  by (simp add: match_at_def word_boundary_def)

lemma findall_from_in_word:
  "opt_word uw before \<Longrightarrow>
     findall_from uw before s = findall_from uw None (dropWhile (is_word uw) s)"
proof (induction s arbitrary: before)
  case Nil
  then show ?case by simp
next
  case (Cons c cs)
  show ?case
  proof (cases "is_word uw c")
    case True
    then have "findall_from uw before (c # cs) = findall_from uw (Some c) cs"
      using Cons.prems by (simp add: match_at_in_word)
    also have "\<dots> = findall_from uw None (dropWhile (is_word uw) cs)"
      using True by (intro Cons.IH) simp
    finally show ?thesis using True by simp
  next
    case False
    then show ?thesis by (simp add: match_at_non_word)
  qed
qed

lemma findall_from_upper_runs:
  "\<not> opt_word uw before \<Longrightarrow> findall_from uw before s = upper_runs uw s"
proof (induction uw s arbitrary: before rule: word_runs.induct)
  case (1 uw)
  then show ?case by (simp add: upper_runs_def)
next
  case (2 uw c cs)
  show ?case
  proof (cases "is_word uw c")
    case False
    then have "findall_from uw before (c # cs) = findall_from uw (Some c) cs"
      by (simp add: match_at_non_word)
    also have "\<dots> = upper_runs uw cs"
      using False by (intro "2.IH"(2)) simp_all
    finally show ?thesis using False by (simp add: upper_runs_def)
  next
    case True
    define w where "w = c # takeWhile (is_word uw) cs"
    define r where "r = dropWhile (is_word uw) cs"
    have s: "c # cs = w @ r" by (simp add: w_def r_def)
    have rest: "upper_runs uw r = findall_from uw None r"
      using True "2.IH"(1) [of None] by (simp add: r_def)
    have rr: "dropWhile (is_word uw) r = r"
      unfolding r_def by (rule dropWhile_stop) (rule head_dropWhile_word)
    have runs: "upper_runs uw (c # cs) =
        (if length w \<le> 5 \<and> list_all is_upper w then [w] else []) @ upper_runs uw r"
      using True by (simp add: upper_runs_def w_def r_def)
    show ?thesis
    proof (cases "length w \<le> 5 \<and> list_all is_upper w")
      case ok: True
      then have m: "match_at uw before (c # cs) = Some (length w)"
        using match_at_word_start [OF "2.prems" True, of cs] by (simp add: w_def)
      have lastw: "is_word uw ((c # cs) ! (length w - 1))"
      proof -
        have wpos: "0 < length w" by (simp add: w_def)
        have "(c # cs) ! (length w - 1) = w ! (length w - 1)"
          unfolding s using wpos by (simp add: nth_append)
        moreover have "w ! (length w - 1) \<in> set w"
          by (rule nth_mem) (simp add: w_def)
        moreover have "\<forall>x\<in>set w. is_word uw x"
          using True by (auto simp: w_def dest: set_takeWhileD)
        ultimately show ?thesis by simp
      qed
      have "findall_from uw before (c # cs)
          = take (length w) (c # cs)
            # findall_from uw (Some ((c # cs) ! (length w - 1))) (drop (length w) (c # cs))"
        using m by simp
      also have "take (length w) (c # cs) = w" unfolding s by simp
      also have "drop (length w) (c # cs) = r" unfolding s by simp
      also have "findall_from uw (Some ((c # cs) ! (length w - 1))) r = findall_from uw None r"
        using findall_from_in_word [of uw "Some ((c # cs) ! (length w - 1))" r] lastw rr
        by simp
      finally show ?thesis using ok runs rest by simp
    next
      case bad: False
      then have m: "match_at uw before (c # cs) = None"
        using match_at_word_start [OF "2.prems" True, of cs] by (simp add: w_def)
      then have "findall_from uw before (c # cs) = findall_from uw (Some c) cs"
        by simp
      also have "\<dots> = findall_from uw None r"
        using findall_from_in_word [of uw "Some c" cs] True by (simp add: r_def)
      finally show ?thesis using bad runs rest by simp
    qed
  qed
qed

lemma re_findall_upper_runs: "re_findall uw text = upper_runs uw text"
  by (simp add: re_findall_def findall_from_upper_runs)

lemma first_of_filter: "(case filter P xs of [] \<Rightarrow> None | x # _ \<Rightarrow> Some x) = List.find P xs"
  by (induction xs) simp_all

lemma common_words_list:
  "common_words = set (map lit [''THE'', ''AND'', ''FOR'', ''ARE'', ''YOU'', ''ALL'', ''NEW'',
     ''TOP'', ''BEST'', ''HIGH'', ''LOW''])"
  by (simp add: common_words_def)

text \<open>
  C4: for every text, \<^verbatim>\<open>extract_stock_symbol\<close> returns the first match, in the order of
  the text, among the word-bounded runs of one to five capital letters, after the words of
  the stoplist and the matches shorter than two characters are discarded, and nothing if
  none is left; for "Our top pick is NVDA, a strong buy" it returns NVDA.
\<close>

theorem extract_stock_symbol_first_surviving:
  "extract_stock_symbol uw text
     = List.find (\<lambda>s. s \<notin> common_words \<and> 2 \<le> length s) (upper_runs uw text) \<and>
   extract_stock_symbol uw (lit ''Our top pick is NVDA, a strong buy'') = Some (lit ''NVDA'')"
proof
  show "extract_stock_symbol uw text
      = List.find (\<lambda>s. s \<notin> common_words \<and> 2 \<le> length s) (upper_runs uw text)"
    by (simp add: extract_stock_symbol_def re_findall_upper_runs first_of_filter)
  show "extract_stock_symbol uw (lit ''Our top pick is NVDA, a strong buy'') = Some (lit ''NVDA'')"
    by code_simp
qed

theorem extract_stock_symbol_first_surviving_witness:
  "List.find (\<lambda>s. s \<notin> common_words \<and> 2 \<le> length s)
     (upper_runs (\<lambda>c. False) (lit ''THE stock GRPH (Graphex Inc) beats IBM''))
   = Some (lit ''GRPH'')"
proof -
  have a: "extract_stock_symbol (\<lambda>c. False) (lit ''THE stock GRPH (Graphex Inc) beats IBM'')
      = Some (lit ''GRPH'')"
    by code_simp
  from extract_stock_symbol_first_surviving
    [of "\<lambda>c. False" "lit ''THE stock GRPH (Graphex Inc) beats IBM''"]
  have "extract_stock_symbol (\<lambda>c. False) (lit ''THE stock GRPH (Graphex Inc) beats IBM'')
      = List.find (\<lambda>s. s \<notin> common_words \<and> 2 \<le> length s)
          (upper_runs (\<lambda>c. False) (lit ''THE stock GRPH (Graphex Inc) beats IBM''))"
    by (rule conjunct1)
  with a show ?thesis by (simp only:)
qed

text \<open>
  C5: for every text, \<^verbatim>\<open>extract_stock_symbol\<close> never returns a word of the stoplist
  THE, AND, FOR, ARE, YOU, ALL, NEW, TOP, BEST, HIGH, LOW and never a string shorter than
  two characters; for "THE AND FOR ARE" it returns nothing.
\<close>

theorem extract_stock_symbol_never_stoplisted:
  "(\<forall>s. extract_stock_symbol uw text = Some s \<longrightarrow>
      s \<notin> set (map lit [''THE'', ''AND'', ''FOR'', ''ARE'', ''YOU'', ''ALL'', ''NEW'', ''TOP'',
        ''BEST'', ''HIGH'', ''LOW'']) \<and> 2 \<le> length s) \<and>
   extract_stock_symbol uw (lit ''THE AND FOR ARE'') = None"
proof (intro conjI allI impI)
  fix s
  assume "extract_stock_symbol uw text = Some s"
  then obtain rest where
    "filter (\<lambda>s. s \<notin> common_words \<and> 2 \<le> length s) (re_findall uw text) = s # rest"
    by (auto simp: extract_stock_symbol_def split: list.splits)
  then have "s \<in> set (filter (\<lambda>s. s \<notin> common_words \<and> 2 \<le> length s) (re_findall uw text))"
    by simp
  then have s: "s \<notin> common_words" "2 \<le> length s"
    by simp_all
  from s(1) show "s \<notin> set (map lit [''THE'', ''AND'', ''FOR'', ''ARE'', ''YOU'', ''ALL'', ''NEW'',
      ''TOP'', ''BEST'', ''HIGH'', ''LOW''])"
    by (simp only: common_words_list not_False_eq_True)
  from s(2) show "2 \<le> length s" .
next
  show "extract_stock_symbol uw (lit ''THE AND FOR ARE'') = None"
    by code_simp
qed

theorem extract_stock_symbol_never_stoplisted_witness:
  "extract_stock_symbol (\<lambda>c. False) (lit ''Buy TOP pick NVDA now'') = Some (lit ''NVDA'') \<and>
   lit ''NVDA'' \<notin> set (map lit [''THE'', ''AND'', ''FOR'', ''ARE'', ''YOU'', ''ALL'', ''NEW'', ''TOP'',
     ''BEST'', ''HIGH'', ''LOW'']) \<and> 2 \<le> length (lit ''NVDA'')"
proof -
  have a: "extract_stock_symbol (\<lambda>c. False) (lit ''Buy TOP pick NVDA now'') = Some (lit ''NVDA'')"
    by code_simp
  from extract_stock_symbol_never_stoplisted [of "\<lambda>c. False" "lit ''Buy TOP pick NVDA now''"] a
  show ?thesis by blast
qed

subsection \<open>Prompt construction\<close>

lemma strs_JStr: "strs (map JStr hs) = Inr hs"
  by (induction hs) simp_all

lemma join_JStr: "join sep (map JStr hs) = Inr (join_strs sep hs)"
  by (simp add: join_def strs_JStr)

lemma news_str_JStr:
  "news sd = map JStr hs \<Longrightarrow>
     news_str sd = Inr (if hs = [] then lit ''No recent news'' else join_strs (lit ''; '') hs)"
  by (simp add: news_str_def join_JStr)

lemma price_str_cases:
  "price_str fs sd =
     (case price sd of
        None \<Rightarrow> lit ''N/A''
      | Some x \<Rightarrow> if x = 0 then lit ''N/A'' else lit ''$'' @ fs x)"
  by (simp add: price_str_def format_value_def truthy_def split: option.splits)

lemma change_str_cases:
  "change_str fs sd =
     (case change_percentage sd of None \<Rightarrow> lit ''N/A'' | Some c \<Rightarrow> fs c @ lit ''%'')"
  by (simp add: change_str_def format_value_def split: option.splits)

lemma sublist_middle: "p = ps @ xs @ ss \<Longrightarrow> sublist xs p"
  by (simp only: sublist_appendI)

lemma graphex_snapshot_built:
  "analyze_single_stock graphex_info graphex_news (lit ''GRPH'') = Some graphex_snapshot"
  by code_simp

text \<open>
  C6, as the code has it: for every stock snapshot whose headlines are strings,
  \<^verbatim>\<open>build_analysis_prompt\<close> produces a prompt, a function of the snapshot alone, that
  contains the ticker, the price with "$" in front (or "N/A" exactly when the price is
  null or zero), the change percentage with "%" behind (or "N/A" exactly when the change
  is null) and the headlines joined with "; " (or "No recent news" when there is none).
\<close>

theorem build_analysis_prompt_contents:
  assumes "news sd = map JStr hs"
  shows "\<exists>p. build_analysis_prompt fs sd = Inr p \<and>
    sublist (lit ''Stock: '' @ symbol sd) p \<and>
    sublist (lit ''Current Price: ''
      @ (case price sd of
           None \<Rightarrow> lit ''N/A''
         | Some x \<Rightarrow> if x = 0 then lit ''N/A'' else lit ''$'' @ fs x)) p \<and>
    sublist (lit ''Daily Change: ''
      @ (case change_percentage sd of None \<Rightarrow> lit ''N/A'' | Some c \<Rightarrow> fs c @ lit ''%'')) p \<and>
    sublist (lit ''Recent News: ''
      @ (if hs = [] then lit ''No recent news'' else join_strs (lit ''; '') hs)) p"
proof -
  define ns where "ns = (if hs = [] then lit ''No recent news'' else join_strs (lit ''; '') hs)"
  define ps where "ps = (case price sd of
      None \<Rightarrow> lit ''N/A''
    | Some x \<Rightarrow> if x = 0 then lit ''N/A'' else lit ''$'' @ fs x)"
  define cs where "cs = (case change_percentage sd of
      None \<Rightarrow> lit ''N/A''
    | Some c \<Rightarrow> fs c @ lit ''%'')"
  define intro where "intro =
    lit ''You are a top stock analyst. Based on the following discovered small-cap stock with its ''
    @ lit ''current price, daily change, and recent news headlines, provide a detailed analysis ''
    @ lit ''of this stock's potential for significant growth:\<newline>\<newline>''"
  define request where "request =
    lit ''\<newline>\<newline>''
    @ lit ''Provide a comprehensive analysis including:\<newline>''
    @ lit ''1. Why this stock shows promise\<newline>''
    @ lit ''2. Key factors driving its potential\<newline>''
    @ lit ''3. Risk considerations\<newline>''
    @ lit ''4. Your overall recommendation''"
  define p where "p =
    intro @ lit ''Stock: '' @ symbol sd @ lit ''\<newline>''
    @ lit ''Current Price: '' @ ps @ lit ''\<newline>''
    @ lit ''Daily Change: '' @ cs @ lit ''\<newline>''
    @ lit ''Recent News: '' @ ns @ request"
  have built: "build_analysis_prompt fs sd = Inr p"
    using news_str_JStr [OF assms]
    by (simp add: build_analysis_prompt_def price_str_cases change_str_cases p_def intro_def
        request_def ns_def ps_def cs_def)
  have "p = intro @ (lit ''Stock: '' @ symbol sd)
      @ (lit ''\<newline>'' @ lit ''Current Price: '' @ ps @ lit ''\<newline>''
         @ lit ''Daily Change: '' @ cs @ lit ''\<newline>'' @ lit ''Recent News: '' @ ns @ request)"
    by (simp add: p_def)
  then have s1: "sublist (lit ''Stock: '' @ symbol sd) p"
    by (rule sublist_middle)
  have "p = (intro @ lit ''Stock: '' @ symbol sd @ lit ''\<newline>'')
      @ (lit ''Current Price: '' @ ps)
      @ (lit ''\<newline>'' @ lit ''Daily Change: '' @ cs @ lit ''\<newline>''
         @ lit ''Recent News: '' @ ns @ request)"
    by (simp add: p_def)
  then have s2: "sublist (lit ''Current Price: '' @ ps) p"
    by (rule sublist_middle)
  have "p = (intro @ lit ''Stock: '' @ symbol sd @ lit ''\<newline>''
        @ lit ''Current Price: '' @ ps @ lit ''\<newline>'')
      @ (lit ''Daily Change: '' @ cs)
      @ (lit ''\<newline>'' @ lit ''Recent News: '' @ ns @ request)"
    by (simp add: p_def)
  then have s3: "sublist (lit ''Daily Change: '' @ cs) p"
    by (rule sublist_middle)
  have "p = (intro @ lit ''Stock: '' @ symbol sd @ lit ''\<newline>''
        @ lit ''Current Price: '' @ ps @ lit ''\<newline>''
        @ lit ''Daily Change: '' @ cs @ lit ''\<newline>'')
      @ (lit ''Recent News: '' @ ns) @ request"
    by (simp add: p_def)
  then have s4: "sublist (lit ''Recent News: '' @ ns) p"
    by (rule sublist_middle)
  from built s1 s2 s3 s4 show ?thesis
    unfolding ns_def ps_def cs_def by blast
qed

theorem build_analysis_prompt_contents_witness:
  "analyze_single_stock graphex_info graphex_news (lit ''GRPH'') = Some graphex_snapshot \<and>
   news graphex_snapshot = map JStr [lit ''Graphex wins contract''] \<and>
   (\<exists>p. build_analysis_prompt float_repr graphex_snapshot = Inr p \<and>
      sublist (lit ''Stock: GRPH'') p \<and>
      sublist (lit ''Current Price: $12.5'') p \<and>
      sublist (lit ''Daily Change: 25.0%'') p \<and>
      sublist (lit ''Graphex wins contract'') p)"
proof -
  have h: "news graphex_snapshot = map JStr [lit ''Graphex wins contract'']"
    by (simp add: graphex_snapshot_def)
  have e1: "lit ''Stock: '' @ symbol graphex_snapshot = lit ''Stock: GRPH''"
    by code_simp
  have e2: "lit ''Current Price: ''
      @ (case price graphex_snapshot of
           None \<Rightarrow> lit ''N/A''
         | Some x \<Rightarrow> if x = 0 then lit ''N/A'' else lit ''$'' @ float_repr x)
      = lit ''Current Price: $12.5''"
    by code_simp
  have e3: "lit ''Daily Change: ''
      @ (case change_percentage graphex_snapshot of
           None \<Rightarrow> lit ''N/A''
         | Some c \<Rightarrow> float_repr c @ lit ''%'')
      = lit ''Daily Change: 25.0%''"
    by code_simp
  have e4: "lit ''Recent News: ''
      @ (if [lit ''Graphex wins contract''] = [] then lit ''No recent news''
         else join_strs (lit ''; '') [lit ''Graphex wins contract''])
      = lit ''Recent News: '' @ lit ''Graphex wins contract''"
    by simp
  from build_analysis_prompt_contents [OF h, of float_repr]
  obtain p where p: "build_analysis_prompt float_repr graphex_snapshot = Inr p"
    "sublist (lit ''Stock: GRPH'') p"
    "sublist (lit ''Current Price: $12.5'') p"
    "sublist (lit ''Daily Change: 25.0%'') p"
    "sublist (lit ''Recent News: '' @ lit ''Graphex wins contract'') p"
    unfolding e1 e2 e3 e4 by blast
  have "sublist (lit ''Graphex wins contract'') (lit ''Recent News: '' @ lit ''Graphex wins contract'')"
    by (rule sublist_append_leftI)
  with p(5) have "sublist (lit ''Graphex wins contract'') p"
    by (rule sublist_order.order_trans [rotated])
  with p h graphex_snapshot_built show ?thesis by blast
qed

theorem build_analysis_prompt_zero_price_counterexample:
  "price zero_price_snapshot = Some 0 \<and>
   build_analysis_prompt float_repr zero_price_snapshot
     = Inr (lit ''You are a top stock analyst. Based on the following discovered small-cap stock with its current price, daily change, and recent news headlines, provide a detailed analysis of this stock's potential for significant growth:\<newline>\<newline>Stock: GRPH\<newline>Current Price: N/A\<newline>Daily Change: N/A\<newline>Recent News: No recent news\<newline>\<newline>Provide a comprehensive analysis including:\<newline>1. Why this stock shows promise\<newline>2. Key factors driving its potential\<newline>3. Risk considerations\<newline>4. Your overall recommendation'')"
  by code_simp

subsection \<open>Orchestrator\<close>

lemma stock_failure:
  "stock env = Inl e \<Longrightarrow> e = HTTPException 500 (lit ''Failed to generate stock recommendation'')"
  by (auto simp: stock_def abort_def split: sum.splits)

lemma stock_try_failure:
  "stock_try env = Inl x \<Longrightarrow>
     stock env = Inl (HTTPException 500 (lit ''Failed to generate stock recommendation''))"
  by (simp add: stock_def abort_def)

lemma stock_success: "stock env = Inr page \<Longrightarrow> stock_try env = Inr page"
  by (auto simp: stock_def abort_def split: sum.splits)

lemma stock_try_success:
  assumes "stock_try env = Inr page"
  shows "\<exists>d s sd prompt a.
    get_ai_stock_discovery (chat_completion env) = Inr (Some d) \<and>
    extract_stock_symbol (unicode_word env) d = Some s \<and>
    analyze_single_stock (ticker_info env) (requests_get env) s = Some sd \<and>
    build_analysis_prompt (format_float env) sd = Inr prompt \<and>
    get_ai_recommendation (chat_completion env) prompt = Inr (Some a) \<and>
    page = Rendered (lit ''stock.html'')
      (lit ''AI Stock Discovery:\<newline>'' @ d @ lit ''\<newline>\<newline>''
       @ lit ''Detailed Analysis:\<newline>'' @ a)"
proof -
  from assms obtain d where d: "get_ai_stock_discovery (chat_completion env) = Inr (Some d)"
    by (auto simp: stock_try_def abort_def split: sum.splits option.splits)
  from assms d obtain s where s: "extract_stock_symbol (unicode_word env) d = Some s" "s \<noteq> []"
    by (auto simp: stock_try_def abort_def split: option.splits if_splits)
  from assms d s obtain sd where
    sd: "analyze_single_stock (ticker_info env) (requests_get env) s = Some sd"
    by (auto simp: stock_try_def abort_def split: option.splits)
  from assms d s sd obtain prompt where
    prompt: "build_analysis_prompt (format_float env) sd = Inr prompt"
    by (auto simp: stock_try_def abort_def split: sum.splits)
  from assms d s sd prompt obtain a where
    a: "get_ai_recommendation (chat_completion env) prompt = Inr (Some a)"
    by (auto simp: stock_try_def abort_def split: sum.splits option.splits)
  from assms d s sd prompt a have
    "page = Rendered (lit ''stock.html'')
      (lit ''AI Stock Discovery:\<newline>'' @ d @ lit ''\<newline>\<newline>''
       @ lit ''Detailed Analysis:\<newline>'' @ a)"
    by (simp add: stock_try_def)
  with d s sd prompt a show ?thesis by blast
qed

text \<open>
  C1, as the code has it: whenever the recommendation pipeline fails, the failure
  reported to the caller is an HTTP 500 error; it carries no stage tag when a call of the
  language model errors: for every run in which the discovery call errors, and for every
  run in which the analysis call errors, the caller gets the same description "Failed to
  generate stock recommendation".
\<close>

theorem stock_failure_report:
  "(\<forall>e. stock env = Inl e \<longrightarrow> (\<exists>description. e = HTTPException 500 description)) \<and>
   (\<forall>x. chat_completion env discovery_messages 1000 = Inl x \<longrightarrow>
      stock env = Inl (HTTPException 500 (lit ''Failed to generate stock recommendation''))) \<and>
   (\<forall>d s sd prompt x.
      chat_completion env discovery_messages 1000 = Inr (Some d) \<and>
      extract_stock_symbol (unicode_word env) d = Some s \<and>
      analyze_single_stock (ticker_info env) (requests_get env) s = Some sd \<and>
      build_analysis_prompt (format_float env) sd = Inr prompt \<and>
      chat_completion env (recommendation_messages prompt) 500 = Inl x \<longrightarrow>
      stock env = Inl (HTTPException 500 (lit ''Failed to generate stock recommendation'')))"
proof (intro conjI allI impI)
  fix e
  assume "stock env = Inl e"
  then show "\<exists>description. e = HTTPException 500 description"
    by (auto dest: stock_failure)
next
  fix x
  assume "chat_completion env discovery_messages 1000 = Inl x"
  then have "stock_try env = Inl x"
    by (simp add: stock_try_def get_ai_stock_discovery_def)
  then show "stock env = Inl (HTTPException 500 (lit ''Failed to generate stock recommendation''))"
    by (rule stock_try_failure)
next
  fix d s sd prompt x
  assume a: "chat_completion env discovery_messages 1000 = Inr (Some d) \<and>
      extract_stock_symbol (unicode_word env) d = Some s \<and>
      analyze_single_stock (ticker_info env) (requests_get env) s = Some sd \<and>
      build_analysis_prompt (format_float env) sd = Inr prompt \<and>
      chat_completion env (recommendation_messages prompt) 500 = Inl x"
  then have "\<exists>y. stock_try env = Inl y"
    by (simp add: stock_try_def get_ai_stock_discovery_def get_ai_recommendation_def abort_def)
  then show "stock env = Inl (HTTPException 500 (lit ''Failed to generate stock recommendation''))"
    by (auto dest: stock_try_failure)
qed

theorem stock_failure_report_witness:
  "chat_completion discovery_error_env discovery_messages 1000
     = Inl (ProviderError (lit ''APIConnectionError'')) \<and>
   stock discovery_error_env
     = Inl (HTTPException 500 (lit ''Failed to generate stock recommendation''))"
proof -
  have h: "chat_completion discovery_error_env discovery_messages 1000
      = Inl (ProviderError (lit ''APIConnectionError''))"
    by (simp add: discovery_error_env_def failing_chat_def)
  from stock_failure_report [of discovery_error_env] h show ?thesis by blast
qed

theorem stock_stage_tag_counterexample:
  "stock discovery_error_env
     = Inl (HTTPException 500 (lit ''Failed to generate stock recommendation'')) \<and>
   stock analysis_error_env
     = Inl (HTTPException 500 (lit ''Failed to generate stock recommendation''))"
  by code_simp

text \<open>
  C9: the pipeline is all or nothing. Every successful run returns the page made of the
  discovery text and the analysis text under the two fixed headers, and a run that fails
  at any stage returns the fixed HTTP 500 error, which holds neither text.
\<close>

theorem stock_all_or_nothing:
  "(\<forall>page. stock env = Inr page \<longrightarrow>
      (\<exists>d s sd prompt a.
         get_ai_stock_discovery (chat_completion env) = Inr (Some d) \<and>
         extract_stock_symbol (unicode_word env) d = Some s \<and>
         analyze_single_stock (ticker_info env) (requests_get env) s = Some sd \<and>
         build_analysis_prompt (format_float env) sd = Inr prompt \<and>
         get_ai_recommendation (chat_completion env) prompt = Inr (Some a) \<and>
         page = Rendered (lit ''stock.html'')
           (lit ''AI Stock Discovery:\<newline>'' @ d @ lit ''\<newline>\<newline>''
            @ lit ''Detailed Analysis:\<newline>'' @ a))) \<and>
   (\<forall>e. stock env = Inl e \<longrightarrow>
      e = HTTPException 500 (lit ''Failed to generate stock recommendation''))"
  by (blast dest: stock_success stock_try_success stock_failure)

theorem stock_all_or_nothing_witness:
  "stock graphex_env
     = Inr (Rendered (lit ''stock.html'')
         (lit ''AI Stock Discovery:\<newline>Our top pick is GRPH (Graphex Inc), a strong buy\<newline>\<newline>Detailed Analysis:\<newline>Graphex is a promising small-cap stock.'')) \<and>
   (\<exists>d a. get_ai_stock_discovery (chat_completion graphex_env) = Inr (Some d) \<and>
      (\<exists>prompt. get_ai_recommendation (chat_completion graphex_env) prompt = Inr (Some a)) \<and>
      Rendered (lit ''stock.html'')
        (lit ''AI Stock Discovery:\<newline>Our top pick is GRPH (Graphex Inc), a strong buy\<newline>\<newline>Detailed Analysis:\<newline>Graphex is a promising small-cap stock.'')
      = Rendered (lit ''stock.html'')
          (lit ''AI Stock Discovery:\<newline>'' @ d @ lit ''\<newline>\<newline>''
           @ lit ''Detailed Analysis:\<newline>'' @ a))"
proof -
  have h: "stock graphex_env
      = Inr (Rendered (lit ''stock.html'')
          (lit ''AI Stock Discovery:\<newline>Our top pick is GRPH (Graphex Inc), a strong buy\<newline>\<newline>Detailed Analysis:\<newline>Graphex is a promising small-cap stock.''))"
    by code_simp
  from stock_all_or_nothing [of graphex_env] h show ?thesis by blast
qed

end
